theory Spec2Isabelle
  imports Main "HOL-Library.Word"
begin

section \<open>Data of the Go runtime and of the imported packages\<close>

text \<open>
  The package \<^verbatim>\<open>jwtauth\<close> (file \<^verbatim>\<open>jwtauth.go\<close>) is a thin layer over three imported
  packages: \<^verbatim>\<open>jwt-go\<close> (tokens, signing, parsing), \<^verbatim>\<open>net/http\<close> (requests, responses)
  and \<^verbatim>\<open>context\<close>. The data of those packages is modelled as far as \<^verbatim>\<open>jwtauth.go\<close>
  reads or writes it; their functions are parameters of the model (record \<open>jwt_lib\<close>).
\<close>

text \<open>
  A byte is a \<open>char\<close> (eight bits), so that a \<^verbatim>\<open>string\<close> and a \<^verbatim>\<open>[]byte\<close> hold the same
  bytes, as in Go. A slice \<^verbatim>\<open>[]byte\<close> is an optional list: \<open>None\<close> is the nil slice,
  \<open>Some []\<close> an empty one.
\<close>

type_synonym byte = char

type_synonym bytes = "byte list option"

definition len :: "bytes \<Rightarrow> nat" where
  "len b = (case b of None \<Rightarrow> 0 | Some xs \<Rightarrow> length xs)"

type_synonym int64 = "64 word"

text \<open>An \<^verbatim>\<open>error\<close> value carries its message; \<open>Error\<close> is the method \<^verbatim>\<open>err.Error()\<close>.\<close>

datatype error = Err string

fun Error :: "error \<Rightarrow> string" where
  "Error (Err m) = m"

text \<open>
  A value of type \<^verbatim>\<open>interface{}\<close> with its dynamic type. A \<^verbatim>\<open>float64\<close> is kept as its
  IEEE-754 bit pattern (no arithmetic is done on it here), a \<^verbatim>\<open>json.Number\<close> as its text.
\<close>

datatype go_value =
    VNil
  | VBool bool
  | VInt int64
  | VInt64 int64
  | VFloat64 "64 word"
  | VString string
  | VNumber string

text \<open>
  A \<^verbatim>\<open>jwt.SigningMethod\<close>: the registered methods are singletons, one per algorithm name,
  so a method is identified by the name that \<^verbatim>\<open>Alg()\<close> returns, and comparing two interface
  values compares the names.
\<close>

datatype SigningMethod = SigningMethod string

text \<open>
  \<^verbatim>\<open>jwt.Token\<close>, with the fields \<^verbatim>\<open>jwtauth.go\<close> reads or writes (\<^verbatim>\<open>Header\<close> and
  \<^verbatim>\<open>Signature\<close> are used inside \<^verbatim>\<open>jwt-go\<close> only). A \<^verbatim>\<open>*jwt.Token\<close> is a
  \<open>Token option\<close>, \<open>None\<close> the nil pointer.
\<close>

record Token =
  Raw :: string
  Method :: "SigningMethod option"
  Claims :: "string \<rightharpoonup> go_value"
  Valid :: bool

text \<open>\<^verbatim>\<open>jwt.Parser\<close>: the parser settings of jwt-go 2.4.0.\<close>

record Parser =
  ValidMethods :: "string list option"
  UseJSONNumber :: bool

text \<open>\<^verbatim>\<open>jwt.Keyfunc\<close>: the callback through which a parser asks for the verification key.\<close>

type_synonym Keyfunc = "Token \<Rightarrow> bytes \<times> error option"

text \<open>
  The functions of \<^verbatim>\<open>jwt-go\<close> that \<^verbatim>\<open>jwtauth.go\<close> calls. They are not part of this
  repository and are taken as parameters:
  \<^item> \<open>GetSigningMethod\<close>: \<^verbatim>\<open>jwt.GetSigningMethod(alg)\<close>, nil for an unknown name;
  \<^item> \<open>jwt_New\<close>: \<^verbatim>\<open>jwt.New(method)\<close>; \<open>None\<close> when the call yields no token
    (\<^verbatim>\<open>jwt.New\<close> calls \<^verbatim>\<open>method.Alg()\<close>, which panics on a nil method);
  \<^item> \<open>SignedString\<close>: \<^verbatim>\<open>t.SignedString(key)\<close>;
  \<^item> \<open>jwt_Parse\<close>: the package-level \<^verbatim>\<open>jwt.Parse(tokenString, keyFunc)\<close>;
  \<^item> \<open>Parser_Parse\<close>: \<^verbatim>\<open>parser.Parse(tokenString, keyFunc)\<close> of a configured parser.
\<close>

record jwt_lib =
  GetSigningMethod :: "string \<Rightarrow> SigningMethod option"
  jwt_New :: "SigningMethod option \<Rightarrow> Token option"
  SignedString :: "Token \<Rightarrow> bytes \<Rightarrow> string \<times> error option"
  jwt_Parse :: "string \<Rightarrow> Keyfunc \<Rightarrow> Token option \<times> error option"
  Parser_Parse :: "Parser \<Rightarrow> string \<Rightarrow> Keyfunc \<Rightarrow> Token option \<times> error option"

text \<open>
  \<^verbatim>\<open>http.Request\<close>, as far as the handler reads it: the parsed query (\<^verbatim>\<open>r.URL.Query()\<close>,
  a \<^verbatim>\<open>url.Values\<close>), the header map (keys in canonical form) and the cookies in the order
  of the \<^verbatim>\<open>Cookie\<close> header.
\<close>

record Cookie =
  Name :: string
  Value :: string

record Request =
  URL_Query :: "string \<rightharpoonup> string list"
  Header :: "string \<rightharpoonup> string list"
  Cookies :: "Cookie list"

text \<open>\<^verbatim>\<open>url.Values.Get\<close>: the first value of the key, the empty string when there is none.\<close>

definition Values_Get :: "(string \<rightharpoonup> string list) \<Rightarrow> string \<Rightarrow> string" where
  "Values_Get v key = (case v key of None \<Rightarrow> [] | Some [] \<Rightarrow> [] | Some (x # _) \<Rightarrow> x)"

text \<open>
  \<^verbatim>\<open>http.Header.Get\<close>: the first value of the canonical key (\<^verbatim>\<open>"Authorization"\<close> is its
  own canonical form), the empty string when there is none.
\<close>

definition Header_Get :: "(string \<rightharpoonup> string list) \<Rightarrow> string \<Rightarrow> string" where
  "Header_Get h key = (case h key of None \<Rightarrow> [] | Some [] \<Rightarrow> [] | Some (x # _) \<Rightarrow> x)"

definition ErrNoCookie :: error where
  "ErrNoCookie = Err ''http: named cookie not present''"

text \<open>\<^verbatim>\<open>r.Cookie(name)\<close>: the first cookie of that name, or \<^verbatim>\<open>http.ErrNoCookie\<close>.\<close>

definition Request_Cookie :: "Request \<Rightarrow> string \<Rightarrow> error + Cookie" where
  "Request_Cookie r name =
     (case find (\<lambda>c. Name c = name) (Cookies r) of
        None \<Rightarrow> Inl ErrNoCookie
      | Some c \<Rightarrow> Inr c)"

text \<open>
  \<^verbatim>\<open>strings.ToUpper\<close> on bytes: the ASCII letters a to z are mapped to A to Z, every other
  byte is kept. The handler compares the result on a six-byte slice with \<^verbatim>\<open>"BEARER"\<close>;
  the only runes outside ASCII whose upper case is an ASCII letter are U+0131 (to I) and
  U+017F (to S), neither a letter of that word, so the comparison is decided by this
  byte-wise map.
\<close>

definition ToUpper_char :: "char \<Rightarrow> char" where
  "ToUpper_char c =
     (case map_of (zip ''abcdefghijklmnopqrstuvwxyz'' ''ABCDEFGHIJKLMNOPQRSTUVWXYZ'') c of
        Some u \<Rightarrow> u
      | None \<Rightarrow> c)"

definition ToUpper :: "string \<Rightarrow> string" where
  "ToUpper s = map ToUpper_char s"

text \<open>
  A \<^verbatim>\<open>context.Context\<close> is the chain of the values attached to it, the latest first;
  \<^verbatim>\<open>context.WithValue\<close> derives a context with one more value.
\<close>

datatype ctx_value = CtxString string | CtxToken Token

type_synonym ctx = "(string \<times> ctx_value) list"

definition WithValue :: "ctx \<Rightarrow> string \<Rightarrow> ctx_value \<Rightarrow> ctx" where
  "WithValue c k v = (k, v) # c"

text \<open>
  What one run of the handler does: it answers with \<^verbatim>\<open>http.Error(w, msg, code)\<close> and
  returns, or it calls \<^verbatim>\<open>next.ServeHTTPC(ctx, w, r)\<close>, or it panics (a nil dereference).
\<close>

datatype outcome = HttpError string nat | ServeNext ctx | Panicked

datatype panic = NilDereference

section \<open>The package jwtauth\<close>

definition errUnauthorized :: error where
  "errUnauthorized = Err ''unauthorized token''"

record JwtAuth =
  signKey :: bytes
  verifyKey :: bytes
  signer :: "SigningMethod option"
  parser :: "Parser option"

definition New :: "jwt_lib \<Rightarrow> string \<Rightarrow> bytes \<Rightarrow> bytes \<Rightarrow> JwtAuth" where
  "New lib alg sk vk =
     \<lparr>signKey = sk, verifyKey = vk, signer = GetSigningMethod lib alg, parser = None\<rparr>"

definition NewWithParser :: "jwt_lib \<Rightarrow> string \<Rightarrow> Parser option \<Rightarrow> bytes \<Rightarrow> bytes \<Rightarrow> JwtAuth" where
  "NewWithParser lib alg p sk vk =
     \<lparr>signKey = sk, verifyKey = vk, signer = GetSigningMethod lib alg, parser = p\<rparr>"

text \<open>
  \<^verbatim>\<open>Encode\<close> (lines 114-120). The token that \<^verbatim>\<open>jwt.New\<close> returns is updated in place;
  without one, the assignment to \<^verbatim>\<open>t.Claims\<close> is not reached.
\<close>

definition Encode ::
  "jwt_lib \<Rightarrow> JwtAuth \<Rightarrow> (string \<rightharpoonup> go_value) \<Rightarrow> panic + (Token option \<times> string \<times> error option)"
where
  "Encode lib ja claims =
     (case jwt_New lib (signer ja) of
        None \<Rightarrow> Inl NilDereference
      | Some t0 \<Rightarrow>
          (let t1 = t0\<lparr>Claims := claims\<rparr>;
               (tokenString, err) = SignedString lib t1 (signKey ja);
               t2 = t1\<lparr>Raw := tokenString\<rparr>
           in Inr (Some t2, tokenString, err)))"

text \<open>\<^verbatim>\<open>keyFunc\<close> (lines 122-128).\<close>

definition keyFunc :: "JwtAuth \<Rightarrow> Keyfunc" where
  "keyFunc ja t =
     (if verifyKey ja \<noteq> None \<and> len (verifyKey ja) > 0 then (verifyKey ja, None)
      else (signKey ja, None))"

text \<open>\<^verbatim>\<open>Decode\<close> (lines 130-135).\<close>

definition Decode :: "jwt_lib \<Rightarrow> JwtAuth \<Rightarrow> string \<Rightarrow> Token option \<times> error option" where
  "Decode lib ja tokenString =
     (case parser ja of
        Some p \<Rightarrow> Parser_Parse lib p tokenString (keyFunc ja)
      | None \<Rightarrow> jwt_Parse lib tokenString (keyFunc ja))"

text \<open>
  \<^verbatim>\<open>EpochNow\<close> (lines 138-140) reads the clock; the reading
  \<^verbatim>\<open>time.Now().UTC().Unix()\<close> is an argument of the model.
\<close>

definition EpochNow :: "int64 \<Rightarrow> int64" where
  "EpochNow unix_seconds = unix_seconds"

text \<open>
  The loop over the aliases (lines 56-61): every alias overwrites \<^verbatim>\<open>tokenStr\<close>, and the
  loop stops at the first one that gives a non-empty value.
\<close>

fun alias_loop :: "(string \<rightharpoonup> string list) \<Rightarrow> string list \<Rightarrow> string \<Rightarrow> string" where
  "alias_loop q [] tokenStr = tokenStr"
| "alias_loop q (p # ps) tokenStr =
     (let tokenStr' = Values_Get q p
      in if tokenStr' \<noteq> [] then tokenStr' else alias_loop q ps tokenStr')"

text \<open>
  The first part of the handler (lines 48-78): the value of \<^verbatim>\<open>tokenStr\<close> when line 80 is
  reached. A nil and an empty \<^verbatim>\<open>paramAliases\<close> both have length 0.
\<close>

definition candidate_token :: "string list \<Rightarrow> Request \<Rightarrow> string" where
  "candidate_token paramAliases r =
     (let tokenStr = Values_Get (URL_Query r) ''jwt'';
          tokenStr =
            (if tokenStr = [] \<and> length paramAliases > 0
             then alias_loop (URL_Query r) paramAliases tokenStr
             else tokenStr);
          tokenStr =
            (if tokenStr = [] then
               (let bearer = Header_Get (Header r) ''Authorization''
                in if length bearer > 7 \<and> ToUpper (take 6 bearer) = ''BEARER''
                   then drop 7 bearer else tokenStr)
             else tokenStr);
          tokenStr =
            (if tokenStr = [] then
               (case Request_Cookie r ''jwt'' of
                  Inr cookie \<Rightarrow> Value cookie
                | Inl err \<Rightarrow> tokenStr)
             else tokenStr)
      in tokenStr)"

text \<open>
  The handler that \<^verbatim>\<open>Handle(paramAliases...)(next)\<close> returns (lines 46-105), run on a
  context \<open>c\<close> and a request \<open>r\<close> with the clock at \<open>unix_seconds\<close>.

  Line 82 assigns \<^verbatim>\<open>errUnauthorized\<close> to \<^verbatim>\<open>err\<close> when no token was found; line 86
  (\<^verbatim>\<open>token, err := ja.Decode(tokenStr)\<close>, in the same block) assigns \<^verbatim>\<open>err\<close> again, so
  the condition of line 87 sees the error of \<^verbatim>\<open>Decode\<close> only. The condition is evaluated
  left to right: with an error the token is not read; with neither an error nor a token,
  \<^verbatim>\<open>token.Valid\<close> dereferences nil. The type assertion \<^verbatim>\<open>token.Claims["exp"].(int64)\<close>
  of line 93 succeeds for a value of dynamic type \<^verbatim>\<open>int64\<close> only; the comparison of
  line 95 is the signed one.
\<close>

definition Handle :: "jwt_lib \<Rightarrow> JwtAuth \<Rightarrow> string list \<Rightarrow> int64 \<Rightarrow> ctx \<Rightarrow> Request \<Rightarrow> outcome" where
  "Handle lib ja paramAliases unix_seconds c r =
     (let tokenStr = candidate_token paramAliases r;
          err = (if tokenStr = [] then Some errUnauthorized else None)
      in case Decode lib ja tokenStr of
           (_, Some err) \<Rightarrow> HttpError (Error errUnauthorized) 401
         | (None, None) \<Rightarrow> Panicked
         | (Some token, None) \<Rightarrow>
             if \<not> Valid token \<or> Method token \<noteq> signer ja
             then HttpError (Error errUnauthorized) 401
             else if (case Claims token ''exp'' of
                        Some (VInt64 exp') \<Rightarrow>
                          (let now = EpochNow unix_seconds in sint exp' < sint now)
                      | _ \<Rightarrow> False)
             then HttpError (Error errUnauthorized) 401
             else
               (let c1 = WithValue c ''jwt'' (CtxString (Raw token));
                    c2 = WithValue c1 ''jwt.token'' (CtxToken token)
                in ServeNext c2))"

text \<open>\<^verbatim>\<open>Handler\<close> (lines 110-112): \<^verbatim>\<open>ja.Handle("")(next)\<close>, one alias, the empty string.\<close>

definition Handler :: "jwt_lib \<Rightarrow> JwtAuth \<Rightarrow> int64 \<Rightarrow> ctx \<Rightarrow> Request \<Rightarrow> outcome" where
  "Handler lib ja unix_seconds c r = Handle lib ja [[]] unix_seconds c r"

section \<open>The probes on their own, and the claimed order\<close>

text \<open>
  The header probe (lines 66-69) and the cookie probe (lines 74-77) as functions of the
  request: what each assigns to \<^verbatim>\<open>tokenStr\<close>, which is empty when the probe is entered
  and stays so when the probe finds nothing.
\<close>

definition header_probe :: "Request \<Rightarrow> string" where
  "header_probe r =
     (let bearer = Header_Get (Header r) ''Authorization''
      in if length bearer > 7 \<and> ToUpper (take 6 bearer) = ''BEARER''
         then drop 7 bearer else [])"

definition cookie_probe :: "Request \<Rightarrow> string" where
  "cookie_probe r =
     (case Request_Cookie r ''jwt'' of
        Inr cookie \<Rightarrow> Value cookie
      | Inl err \<Rightarrow> [])"

text \<open>
  The order of the probes in the words of the specification: the query parameter
  \<^verbatim>\<open>jwt\<close>, the aliases in the given order, the Authorization header, the cookie
  \<^verbatim>\<open>jwt\<close>; the first non-empty hit is the candidate.
\<close>

fun first_nonempty :: "string list \<Rightarrow> string" where
  "first_nonempty [] = []"
| "first_nonempty (x # xs) = (if x \<noteq> [] then x else first_nonempty xs)"

definition probe_sequence :: "string list \<Rightarrow> Request \<Rightarrow> string list" where
  "probe_sequence paramAliases r =
     Values_Get (URL_Query r) ''jwt''
       # map (Values_Get (URL_Query r)) paramAliases
       @ [header_probe r, cookie_probe r]"

text \<open>
  The key policy in the words of the specification: \<^verbatim>\<open>verifyKey\<close> when it is non-empty,
  \<^verbatim>\<open>signKey\<close> otherwise.
\<close>

definition verification_key :: "JwtAuth \<Rightarrow> bytes" where
  "verification_key ja = (if len (verifyKey ja) > 0 then verifyKey ja else signKey ja)"

text \<open>The context handed to the next handler for an accepted token (lines 101-102).\<close>

definition accepted_ctx :: "ctx \<Rightarrow> Token \<Rightarrow> ctx" where
  "accepted_ctx c token =
     WithValue (WithValue c ''jwt'' (CtxString (Raw token))) ''jwt.token'' (CtxToken token)"

section \<open>A small instance of the library\<close>

text \<open>
  An instance of \<open>jwt_lib\<close> on which the definitions above can be run. It is not
  \<^verbatim>\<open>jwt-go\<close>: a token string is \<^verbatim>\<open>alg.payload.tag\<close>, the payload is \<^verbatim>\<open>n\<close> for a claim set
  without \<^verbatim>\<open>exp\<close> and \<^verbatim>\<open>e\<close> followed by \<^verbatim>\<open>exp\<close> in unary for an int64 \<^verbatim>\<open>exp\<close> (other
  claims are not encoded), and the tag is the key itself, so that a tag verifies under
  the key that made it and under no other.
\<close>

fun split_on :: "char \<Rightarrow> string \<Rightarrow> string list" where
  "split_on c [] = [[]]"
| "split_on c (x # xs) =
     (if x = c then [] # split_on c xs
      else (case split_on c xs of [] \<Rightarrow> [[x]] | p # ps \<Rightarrow> (x # p) # ps))"

definition demo_GetSigningMethod :: "string \<Rightarrow> SigningMethod option" where
  "demo_GetSigningMethod alg =
     (if alg = ''HS256'' \<or> alg = ''HS512'' then Some (SigningMethod alg) else None)"

definition demo_New :: "SigningMethod option \<Rightarrow> Token option" where
  "demo_New m =
     (case m of
        None \<Rightarrow> None
      | Some _ \<Rightarrow> Some \<lparr>Raw = [], Method = m, Claims = Map.empty, Valid = False\<rparr>)"

definition demo_payload :: "(string \<rightharpoonup> go_value) \<Rightarrow> string option" where
  "demo_payload cl =
     (case cl ''exp'' of
        None \<Rightarrow> Some ''n''
      | Some (VInt64 e) \<Rightarrow> Some (CHR ''e'' # replicate (unat e) CHR ''1'')
      | Some _ \<Rightarrow> None)"

definition demo_claims :: "string \<Rightarrow> (string \<rightharpoonup> go_value) option" where
  "demo_claims p =
     (case p of
        [] \<Rightarrow> None
      | x # xs \<Rightarrow>
          if x = CHR ''n'' \<and> xs = [] then Some Map.empty
          else if x = CHR ''e'' \<and> xs = replicate (length xs) CHR ''1''
          then Some [''exp'' \<mapsto> VInt64 (of_nat (length xs))]
          else None)"

definition demo_tag :: "bytes \<Rightarrow> string" where
  "demo_tag k = (case k of None \<Rightarrow> [] | Some bs \<Rightarrow> bs)"

definition demo_SignedString :: "Token \<Rightarrow> bytes \<Rightarrow> string \<times> error option" where
  "demo_SignedString t k =
     (case (Method t, demo_payload (Claims t)) of
        (Some (SigningMethod alg), Some p) \<Rightarrow>
          if len k = 0 then ([], Some (Err ''key is invalid''))
          else (alg @ ''.'' @ p @ ''.'' @ demo_tag k, None)
      | _ \<Rightarrow> ([], Some (Err ''token cannot be signed'')))"

definition demo_Parse :: "string \<Rightarrow> Keyfunc \<Rightarrow> Token option \<times> error option" where
  "demo_Parse s kf =
     (case split_on CHR ''.'' s of
        [h, p, sg] \<Rightarrow>
          (case demo_claims p of
             None \<Rightarrow> (None, Some (Err ''token is malformed''))
           | Some cl \<Rightarrow>
               (let t = \<lparr>Raw = s, Method = demo_GetSigningMethod h, Claims = cl, Valid = False\<rparr>
                in if Method t = None
                   then (Some t, Some (Err ''signing method (alg) is unavailable.''))
                   else
                     (case kf t of
                        (k, Some e) \<Rightarrow> (Some t, Some e)
                      | (k, None) \<Rightarrow>
                          if sg = demo_tag k then (Some (t\<lparr>Valid := True\<rparr>), None)
                          else (Some t, Some (Err ''signature is invalid'')))))
      | _ \<Rightarrow> (None, Some (Err ''token contains an invalid number of segments'')))"

definition demo_lib :: jwt_lib where
  "demo_lib =
     \<lparr>GetSigningMethod = demo_GetSigningMethod,
      jwt_New = demo_New,
      SignedString = demo_SignedString,
      jwt_Parse = demo_Parse,
      Parser_Parse = (\<lambda>p. demo_Parse)\<rparr>"

text \<open>
  Authenticators over the instance: \<^verbatim>\<open>New("HS256", "k", nil)\<close>, and
  \<^verbatim>\<open>New("HS256", "k", "v")\<close> with a verify key that differs from the signing key.
\<close>

definition demo_ja :: JwtAuth where
  "demo_ja = New demo_lib ''HS256'' (Some ''k'') None"

definition demo_ja_two_keys :: JwtAuth where
  "demo_ja_two_keys = New demo_lib ''HS256'' (Some ''k'') (Some ''v'')"

text \<open>Requests that carry one value in one place, and the request that carries nothing.\<close>

definition query_request :: "string \<Rightarrow> string \<Rightarrow> Request" where
  "query_request name v = \<lparr>URL_Query = [name \<mapsto> [v]], Header = Map.empty, Cookies = []\<rparr>"

definition header_request :: "string \<Rightarrow> Request" where
  "header_request v =
     \<lparr>URL_Query = Map.empty, Header = [''Authorization'' \<mapsto> [v]], Cookies = []\<rparr>"

definition empty_request :: Request where
  "empty_request = \<lparr>URL_Query = Map.empty, Header = Map.empty, Cookies = []\<rparr>"

text \<open>
  A request with a token in the query parameter \<^verbatim>\<open>jwt\<close> and another in the
  Authorization header, and one with tokens under two alias parameters only.
\<close>

definition two_carrier_request :: Request where
  "two_carrier_request =
     \<lparr>URL_Query = [''jwt'' \<mapsto> [''HS256.e11111.k'']],
      Header = [''Authorization'' \<mapsto> [''Bearer HS512.e11111.k'']],
      Cookies = [\<lparr>Name = ''jwt'', Value = ''HS256.n.k''\<rparr>]\<rparr>"

definition alias_request :: Request where
  "alias_request =
     \<lparr>URL_Query = [''access'' \<mapsto> [''HS512.e11111.k''], ''token'' \<mapsto> [''HS256.n.k'']],
      Header = Map.empty, Cookies = []\<rparr>"

text \<open>
  The tokens that the instance parses from \<^verbatim>\<open>alg.e11111.k\<close> (\<^verbatim>\<open>exp\<close> is 5) and from
  \<^verbatim>\<open>HS256.n.k\<close> (no \<^verbatim>\<open>exp\<close>), once verified under the key \<^verbatim>\<open>k\<close>.
\<close>

definition demo_token :: "string \<Rightarrow> Token" where
  "demo_token alg =
     \<lparr>Raw = alg @ ''.e11111.k'', Method = Some (SigningMethod alg),
      Claims = [''exp'' \<mapsto> VInt64 5], Valid = True\<rparr>"

definition demo_token_no_exp :: Token where
  "demo_token_no_exp =
     \<lparr>Raw = ''HS256.n.k'', Method = Some (SigningMethod ''HS256''),
      Claims = Map.empty, Valid = True\<rparr>"

text \<open>The token that \<open>demo_New\<close> returns for \<^verbatim>\<open>HS256\<close>.\<close>

definition demo_fresh_token :: Token where
  "demo_fresh_token =
     \<lparr>Raw = [], Method = Some (SigningMethod ''HS256''), Claims = Map.empty, Valid = False\<rparr>"



section \<open>Lemmas on the probes and on the handler\<close>

lemma first_nonempty_append:
  "first_nonempty (xs @ ys) =
     (if first_nonempty xs \<noteq> [] then first_nonempty xs else first_nonempty ys)"
  by (induction xs) simp_all

lemma first_nonempty_all_empty:
  "(\<forall>x \<in> set xs. x = []) \<Longrightarrow> first_nonempty xs = []"
  by (induction xs) simp_all

text \<open>
  The loop returns the first non-empty alias value; when every alias is empty it leaves
  the value of the last one, the empty string.
\<close>

lemma alias_loop_first_nonempty:
  "ps \<noteq> [] \<Longrightarrow> alias_loop q ps tokenStr = first_nonempty (map (Values_Get q) ps)"
proof (induction ps arbitrary: tokenStr)
  case Nil
  then show ?case by simp
next
  case (Cons p ps)
  show ?case
  proof (cases "ps = []")
    case True
    then show ?thesis by (simp add: Let_def)
  next
    case False
    with Cons.IH show ?thesis by (simp add: Let_def)
  qed
qed

lemma candidate_token_probes:
  "candidate_token paramAliases r =
     (let q = Values_Get (URL_Query r) ''jwt'';
          a = first_nonempty (map (Values_Get (URL_Query r)) paramAliases)
      in if q \<noteq> [] then q
         else if a \<noteq> [] then a
         else if header_probe r \<noteq> [] then header_probe r
         else cookie_probe r)"
proof (cases "paramAliases = []")
  case True
  then show ?thesis
    by (simp add: candidate_token_def header_probe_def cookie_probe_def Let_def
        split: sum.splits)
next
  case False
  then show ?thesis
    by (simp add: candidate_token_def header_probe_def cookie_probe_def Let_def
        alias_loop_first_nonempty split: sum.splits)
qed

lemma candidate_token_query_request:
  "candidate_token [] (query_request ''jwt'' tok) = tok"
  by (simp add: candidate_token_def query_request_def Values_Get_def Header_Get_def
      Request_Cookie_def)

text \<open>The handler reads the request through the candidate token only.\<close>

lemma Handle_candidate:
  "candidate_token as1 r1 = candidate_token as2 r2 \<Longrightarrow>
   Handle lib ja as1 now c r1 = Handle lib ja as2 now c r2"
  by (simp add: Handle_def)

text \<open>Every answer of the handler is the one answer of lines 88 and 96.\<close>

lemma Handle_HttpError:
  "Handle lib ja paramAliases now c r = HttpError m s \<Longrightarrow> m = ''unauthorized token'' \<and> s = 401"
  by (auto simp: Handle_def Let_def errUnauthorized_def
      split: prod.splits option.splits if_splits go_value.splits)

lemma Handle_Decode_error:
  "Decode lib ja (candidate_token paramAliases r) = (t, Some e) \<Longrightarrow>
   Handle lib ja paramAliases now c r = HttpError ''unauthorized token'' 401"
  by (simp add: Handle_def Let_def errUnauthorized_def split: option.splits)

lemma Handle_accepts:
  "Decode lib ja (candidate_token paramAliases r) = (Some t, None) \<Longrightarrow> Valid t \<Longrightarrow>
   Method t = signer ja \<Longrightarrow> \<forall>e. Claims t ''exp'' = Some (VInt64 e) \<longrightarrow> sint now \<le> sint e \<Longrightarrow>
   Handle lib ja paramAliases now c r = ServeNext (accepted_ctx c t)"
  by (auto simp: Handle_def Let_def accepted_ctx_def EpochNow_def
      split: option.splits go_value.splits)

text \<open>
  Line 82 has no effect: with no token found, the handler decides on what \<^verbatim>\<open>Decode\<close>
  returns for the empty string, and would pass the request on if that were a valid
  token.
\<close>

lemma Handle_no_token_follows_Decode:
  "candidate_token paramAliases r = [] \<Longrightarrow> Decode lib ja [] = (Some t, None) \<Longrightarrow> Valid t \<Longrightarrow>
   Method t = signer ja \<Longrightarrow> Claims t ''exp'' = None \<Longrightarrow>
   Handle lib ja paramAliases now c r = ServeNext (accepted_ctx c t)"
  by (rule Handle_accepts) simp_all

lemma keyFunc_verification_key:
  "keyFunc ja = (\<lambda>t. (verification_key ja, None))"
  by (rule ext) (simp add: keyFunc_def verification_key_def len_def split: option.splits)

text \<open>Where the empty alias finds nothing, \<^verbatim>\<open>Handler\<close> and \<^verbatim>\<open>Handle()\<close> agree.\<close>

lemma Handler_eq_Handle_no_alias:
  "Values_Get (URL_Query r) [] = [] \<Longrightarrow> Handler lib ja now c r = Handle lib ja [] now c r"
  unfolding Handler_def
  by (rule Handle_candidate) (simp add: candidate_token_probes)

section \<open>The instance, evaluated\<close>

lemmas demo_simps =
  demo_lib_def demo_ja_def demo_ja_two_keys_def New_def demo_GetSigningMethod_def demo_New_def
  demo_claims_def demo_tag_def demo_Parse_def demo_token_def demo_token_no_exp_def
  demo_fresh_token_def Decode_def keyFunc_def len_def

lemmas request_simps =
  candidate_token_def header_probe_def cookie_probe_def Values_Get_def Header_Get_def
  Request_Cookie_def query_request_def header_request_def empty_request_def
  two_carrier_request_def alias_request_def ToUpper_def ToUpper_char_def

lemma demo_Decode_HS256:
  "Decode demo_lib demo_ja ''HS256.e11111.k'' = (Some (demo_token ''HS256''), None)"
  by (simp add: demo_simps)

lemma demo_Decode_HS512:
  "Decode demo_lib demo_ja ''HS512.e11111.k'' = (Some (demo_token ''HS512''), None)"
  by (simp add: demo_simps)

lemma demo_Decode_no_exp:
  "Decode demo_lib demo_ja ''HS256.n.k'' = (Some demo_token_no_exp, None)"
  by (simp add: demo_simps)

lemma demo_Decode_empty:
  "Decode demo_lib demo_ja [] = (None, Some (Err ''token contains an invalid number of segments''))"
  by (simp add: demo_simps)

lemma demo_signer: "signer demo_ja = Some (SigningMethod ''HS256'')"
  by (simp add: demo_simps)

lemma demo_jwt_New: "jwt_New demo_lib (signer demo_ja) = Some demo_fresh_token"
  by (simp add: demo_simps)

lemma demo_SignedString_no_exp:
  "SignedString demo_lib (demo_fresh_token\<lparr>Claims := Map.empty\<rparr>) (Some ''k'')
     = (''HS256.n.k'', None)"
  by (simp add: demo_lib_def demo_fresh_token_def demo_SignedString_def demo_payload_def
      demo_tag_def len_def)

lemma demo_SignedString_exp_string:
  "SignedString demo_lib (demo_fresh_token\<lparr>Claims := [''exp'' \<mapsto> VString ''soon'']\<rparr>) (Some ''k'')
     = ([], Some (Err ''token cannot be signed''))"
  by (simp add: demo_lib_def demo_fresh_token_def demo_SignedString_def demo_payload_def)

section \<open>The claims\<close>

text \<open>
  Claim C2. The key function that \<^verbatim>\<open>Decode\<close> hands to the parser answers every request
  for the key with \<^verbatim>\<open>verifyKey\<close> when \<^verbatim>\<open>verifyKey\<close> is non-empty and with \<^verbatim>\<open>signKey\<close>
  otherwise, and never with an error; the parser has no other access to the keys.
\<close>

theorem C2_verification_key:
  "keyFunc ja t = (verification_key ja, None) \<and>
   Decode lib ja tokenString =
     (case parser ja of
        Some p \<Rightarrow> Parser_Parse lib p tokenString (\<lambda>t. (verification_key ja, None))
      | None \<Rightarrow> jwt_Parse lib tokenString (\<lambda>t. (verification_key ja, None)))"
  by (simp add: Decode_def keyFunc_verification_key split: option.splits)

theorem C2_verification_key_witness:
  "keyFunc demo_ja_two_keys demo_fresh_token = (Some ''v'', None)
   \<and> keyFunc demo_ja demo_fresh_token = (Some ''k'', None)
   \<and> keyFunc (demo_ja\<lparr>verifyKey := Some []\<rparr>) demo_fresh_token = (Some ''k'', None)"
  using C2_verification_key [of demo_ja_two_keys demo_fresh_token]
    C2_verification_key [of demo_ja demo_fresh_token]
    C2_verification_key [of "demo_ja\<lparr>verifyKey := Some []\<rparr>" demo_fresh_token]
  by (simp add: verification_key_def len_def demo_ja_def demo_ja_two_keys_def New_def)

text \<open>
  Claim C3. When the candidate token decodes to a token whose method is not the
  configured one, the handler answers 401 and does not call the next handler, whatever
  the error and the validity flag of the decoded token are.
\<close>

theorem C3_method_mismatch:
  assumes "Decode lib ja (candidate_token paramAliases r) = (Some t, e)"
      and "Method t \<noteq> signer ja"
  shows "Handle lib ja paramAliases now c r = HttpError ''unauthorized token'' 401"
  using assms
  by (simp add: Handle_def Let_def errUnauthorized_def split: option.splits)

theorem C3_method_mismatch_witness:
  "Decode demo_lib demo_ja (candidate_token [] (query_request ''jwt'' ''HS512.e11111.k''))
     = (Some (demo_token ''HS512''), None)
   \<and> Valid (demo_token ''HS512'')
   \<and> Method (demo_token ''HS512'') \<noteq> signer demo_ja
   \<and> Handle demo_lib demo_ja [] 3 [] (query_request ''jwt'' ''HS512.e11111.k'')
     = HttpError ''unauthorized token'' 401"
proof -
  have dec: "Decode demo_lib demo_ja (candidate_token [] (query_request ''jwt'' ''HS512.e11111.k''))
     = (Some (demo_token ''HS512''), None)"
    by (simp add: candidate_token_query_request demo_Decode_HS512)
  have m: "Method (demo_token ''HS512'') \<noteq> signer demo_ja"
    by (simp add: demo_signer demo_token_def)
  have v: "Valid (demo_token ''HS512'')"
    by (simp add: demo_token_def)
  from C3_method_mismatch [OF dec m, of 3 "[]"] dec m v show ?thesis
    by simp
qed

text \<open>
  What the expiry check of lines 93-99 does for a candidate token that decodes without
  an error to a valid token: an \<^verbatim>\<open>exp\<close> claim of dynamic type \<^verbatim>\<open>int64\<close> below the clock
  gives 401; a token of the configured method whose \<^verbatim>\<open>exp\<close> is absent, of another
  dynamic type, or an \<^verbatim>\<open>int64\<close> not below the clock is passed to the next handler.
\<close>

lemma Handle_expiry_int64:
  assumes "Decode lib ja (candidate_token paramAliases r) = (Some t, None)"
      and "Valid t"
  shows "(\<forall>e. Claims t ''exp'' = Some (VInt64 e) \<and> sint e < sint now \<longrightarrow>
            Handle lib ja paramAliases now c r = HttpError ''unauthorized token'' 401)
       \<and> (Method t = signer ja \<and> (\<forall>e. Claims t ''exp'' = Some (VInt64 e) \<longrightarrow> sint now \<le> sint e) \<longrightarrow>
            Handle lib ja paramAliases now c r = ServeNext (accepted_ctx c t))"
proof -
  have rej: "Handle lib ja paramAliases now c r = HttpError ''unauthorized token'' 401"
    if "Claims t ''exp'' = Some (VInt64 e)" and "sint e < sint now" for e
    using assms that
    by (simp add: Handle_def Let_def errUnauthorized_def EpochNow_def)
  have acc: "Handle lib ja paramAliases now c r = ServeNext (accepted_ctx c t)"
    if "Method t = signer ja" and "\<forall>e. Claims t ''exp'' = Some (VInt64 e) \<longrightarrow> sint now \<le> sint e"
    using assms that by (intro Handle_accepts)
  show ?thesis
    using rej acc by auto
qed



text \<open>
  Claim C5 fails on the code: the header probe compares the first six bytes with
  \<^verbatim>\<open>BEARER\<close> and drops seven, so the seventh byte is not checked. The header value
  \<^verbatim>\<open>BearerXabc\<close>, which does not begin with \<^verbatim>\<open>Bearer\<close> and a space, yields the
  candidate \<^verbatim>\<open>abc\<close>.
\<close>

theorem C5_separator_not_checked:
  "candidate_token [] (header_request ''BearerXabc'') = ''abc''"
  by (simp add: request_simps)

text \<open>
  Claim C6. The candidate token is the first non-empty value among: the query parameter
  \<^verbatim>\<open>jwt\<close>, the alias parameters in the configured order, the Authorization header
  probe, the cookie \<^verbatim>\<open>jwt\<close>; and the handler treats the request as it treats a request
  that carries this candidate in the query parameter \<^verbatim>\<open>jwt\<close> and nothing else.
\<close>

theorem C6_probe_order:
  "candidate_token paramAliases r = first_nonempty (probe_sequence paramAliases r) \<and>
   Handle lib ja paramAliases now c r =
     Handle lib ja [] now c (query_request ''jwt'' (first_nonempty (probe_sequence paramAliases r)))"
proof -
  have p: "candidate_token paramAliases r = first_nonempty (probe_sequence paramAliases r)"
    by (simp add: candidate_token_probes probe_sequence_def first_nonempty_append Let_def)
  have "candidate_token paramAliases r =
        candidate_token [] (query_request ''jwt'' (first_nonempty (probe_sequence paramAliases r)))"
    by (simp add: candidate_token_query_request p)
  from Handle_candidate [OF this] p show ?thesis
    by simp
qed

theorem C6_probe_order_witness:
  "candidate_token [] two_carrier_request = ''HS256.e11111.k''
   \<and> Handle demo_lib demo_ja [] 5 [] two_carrier_request
       = ServeNext (accepted_ctx [] (demo_token ''HS256''))
   \<and> candidate_token [''token'', ''access''] alias_request = ''HS256.n.k''
   \<and> candidate_token [''access'', ''token''] alias_request = ''HS512.e11111.k''"
proof -
  have s1: "first_nonempty (probe_sequence [] two_carrier_request) = ''HS256.e11111.k''"
    by (simp add: probe_sequence_def request_simps)
  have s2: "first_nonempty (probe_sequence [''token'', ''access''] alias_request) = ''HS256.n.k''"
    by (simp add: probe_sequence_def request_simps)
  have s3: "first_nonempty (probe_sequence [''access'', ''token''] alias_request) = ''HS512.e11111.k''"
    by (simp add: probe_sequence_def request_simps)
  have h: "Handle demo_lib demo_ja [] 5 [] (query_request ''jwt'' ''HS256.e11111.k'')
       = ServeNext (accepted_ctx [] (demo_token ''HS256''))"
    by (intro Handle_accepts)
      (simp_all add: candidate_token_query_request demo_Decode_HS256 demo_token_def demo_signer)
  from C6_probe_order [of "[]" two_carrier_request demo_lib demo_ja 5 "[]"]
    C6_probe_order [of "[''token'', ''access'']" alias_request demo_lib demo_ja 5 "[]"]
    C6_probe_order [of "[''access'', ''token'']" alias_request demo_lib demo_ja 5 "[]"]
    s1 s2 s3 h
  show ?thesis
    by simp
qed

text \<open>
  Claim C7. When the query parameter \<^verbatim>\<open>jwt\<close>, every alias, the header probe and the
  cookie probe give nothing, the candidate is the empty string and the handler answers
  401 with the fixed message, without calling the next handler. The answer comes from
  \<^verbatim>\<open>Decode\<close> of the empty string (the error assigned on line 82 is overwritten on line
  86), so the library's parser is assumed to report an error for the empty string.
\<close>

theorem C7_no_token:
  assumes "Values_Get (URL_Query r) ''jwt'' = []"
      and "\<forall>p \<in> set paramAliases. Values_Get (URL_Query r) p = []"
      and "header_probe r = []"
      and "cookie_probe r = []"
      and "snd (Decode lib ja []) \<noteq> None"
  shows "candidate_token paramAliases r = [] \<and>
         Handle lib ja paramAliases now c r = HttpError ''unauthorized token'' 401"
proof -
  have "first_nonempty (map (Values_Get (URL_Query r)) paramAliases) = []"
    using assms(2) by (intro first_nonempty_all_empty) simp
  with assms have tok: "candidate_token paramAliases r = []"
    by (simp add: candidate_token_probes)
  obtain t e where "Decode lib ja [] = (t, Some e)"
    using assms(5) by (cases "Decode lib ja []") auto
  with tok have "Decode lib ja (candidate_token paramAliases r) = (t, Some e)"
    by simp
  from Handle_Decode_error [OF this] tok show ?thesis
    by simp
qed

theorem C7_no_token_witness:
  "snd (Decode demo_lib demo_ja []) \<noteq> None \<and>
   candidate_token [''token'', ''access''] empty_request = [] \<and>
   Handle demo_lib demo_ja [''token'', ''access''] 3 [] empty_request
     = HttpError ''unauthorized token'' 401"
proof -
  have q: "Values_Get (URL_Query empty_request) ''jwt'' = []"
    by (simp add: request_simps)
  have a: "\<forall>p \<in> set [''token'', ''access'']. Values_Get (URL_Query empty_request) p = []"
    by (simp add: request_simps)
  have h: "header_probe empty_request = []"
    by (simp add: request_simps)
  have k: "cookie_probe empty_request = []"
    by (simp add: request_simps)
  have d: "snd (Decode demo_lib demo_ja []) \<noteq> None"
    by (simp add: demo_Decode_empty)
  from C7_no_token [OF q a h k d, of 3 "[]"] d show ?thesis
    by simp
qed

text \<open>
  Claim C8. Every answer of the handler is \<^verbatim>\<open>http.Error\<close> with the message
  \<^verbatim>\<open>unauthorized token\<close> and the status 401: two rejected requests, whatever the
  authenticator, the aliases, the clock and the cause, get the same answer.
\<close>

theorem C8_uniform_rejection:
  assumes "Handle lib1 ja1 aliases1 now1 c1 r1 = HttpError m1 s1"
      and "Handle lib2 ja2 aliases2 now2 c2 r2 = HttpError m2 s2"
  shows "m1 = ''unauthorized token'' \<and> s1 = 401 \<and>
         Handle lib1 ja1 aliases1 now1 c1 r1 = Handle lib2 ja2 aliases2 now2 c2 r2"
  using assms Handle_HttpError [OF assms(1)] Handle_HttpError [OF assms(2)]
  by simp

theorem C8_uniform_rejection_witness:
  "Handle demo_lib demo_ja [] 3 [] empty_request = HttpError ''unauthorized token'' 401 \<and>
   Handle demo_lib demo_ja [] 6 [] (query_request ''jwt'' ''HS256.e11111.k'')
     = HttpError ''unauthorized token'' 401 \<and>
   Handle demo_lib demo_ja [] 3 [] empty_request
     = Handle demo_lib demo_ja [] 6 [] (query_request ''jwt'' ''HS256.e11111.k'')"
proof -
  have r1: "Handle demo_lib demo_ja [] 3 [] empty_request = HttpError ''unauthorized token'' 401"
    by (simp add: Handle_def Let_def request_simps demo_Decode_empty errUnauthorized_def)
  have r2: "Handle demo_lib demo_ja [] 6 [] (query_request ''jwt'' ''HS256.e11111.k'')
     = HttpError ''unauthorized token'' 401"
    by (simp add: Handle_def Let_def candidate_token_query_request demo_Decode_HS256
        demo_token_def demo_signer errUnauthorized_def EpochNow_def)
  from C8_uniform_rejection [OF r1 r2] r1 r2 show ?thesis
    by simp
qed

text \<open>
  Claim C9 fails on the code: \<^verbatim>\<open>Handler\<close> calls \<^verbatim>\<open>Handle("")\<close>, with one alias, the empty
  string, and not \<^verbatim>\<open>Handle()\<close>. A request whose only token is the value of a query
  parameter with the empty name is passed on by \<^verbatim>\<open>Handler(next)\<close> and answered with 401
  by \<^verbatim>\<open>Handle()(next)\<close>.
\<close>

theorem C9_handler_probes_empty_alias:
  assumes "Values_Get (URL_Query r) ''jwt'' = []"
      and "Values_Get (URL_Query r) [] = tok"
      and "tok \<noteq> []"
      and "header_probe r = []"
      and "cookie_probe r = []"
      and "Decode lib ja tok = (Some t, None)"
      and "Valid t"
      and "Method t = signer ja"
      and "Claims t ''exp'' = None"
      and "snd (Decode lib ja []) \<noteq> None"
  shows "Handler lib ja now c r = ServeNext (accepted_ctx c t) \<and>
         Handle lib ja [] now c r = HttpError ''unauthorized token'' 401"
proof -
  have c1: "candidate_token [[]] r = tok"
    using assms(1-3) by (simp add: candidate_token_probes)
  have c0: "candidate_token [] r = []"
    using assms(1,4,5) by (simp add: candidate_token_probes)
  have "Handle lib ja [[]] now c r = ServeNext (accepted_ctx c t)"
    using assms(6-9) c1 by (intro Handle_accepts) simp_all
  moreover
  obtain t' e where "Decode lib ja [] = (t', Some e)"
    using assms(10) by (cases "Decode lib ja []") auto
  with c0 have "Decode lib ja (candidate_token [] r) = (t', Some e)"
    by simp
  from Handle_Decode_error [OF this]
  have "Handle lib ja [] now c r = HttpError ''unauthorized token'' 401" .
  ultimately show ?thesis
    by (simp add: Handler_def)
qed

theorem C9_handler_probes_empty_alias_witness:
  "Handler demo_lib demo_ja 3 [] (query_request [] ''HS256.n.k'')
     = ServeNext (accepted_ctx [] demo_token_no_exp)
   \<and> Handle demo_lib demo_ja [] 3 [] (query_request [] ''HS256.n.k'')
     = HttpError ''unauthorized token'' 401"
proof -
  have q: "Values_Get (URL_Query (query_request [] ''HS256.n.k'')) ''jwt'' = []"
    by (simp add: request_simps)
  have a: "Values_Get (URL_Query (query_request [] ''HS256.n.k'')) [] = ''HS256.n.k''"
    by (simp add: request_simps)
  have n: "''HS256.n.k'' \<noteq> []"
    by simp
  have h: "header_probe (query_request [] ''HS256.n.k'') = []"
    by (simp add: request_simps)
  have k: "cookie_probe (query_request [] ''HS256.n.k'') = []"
    by (simp add: request_simps)
  have v: "Valid demo_token_no_exp"
    by (simp add: demo_token_no_exp_def)
  have m: "Method demo_token_no_exp = signer demo_ja"
    by (simp add: demo_signer demo_token_no_exp_def)
  have e: "Claims demo_token_no_exp ''exp'' = None"
    by (simp add: demo_token_no_exp_def)
  have d: "snd (Decode demo_lib demo_ja []) \<noteq> None"
    by (simp add: demo_Decode_empty)
  from C9_handler_probes_empty_alias [OF q a n h k demo_Decode_no_exp v m e d]
  show ?thesis .
qed

text \<open>
  Claim C10. Whenever \<^verbatim>\<open>jwt.New\<close> yields a token (it does for every bound signing
  method), \<^verbatim>\<open>Encode\<close> returns that token, not nil, together with exactly the string and
  the error that \<^verbatim>\<open>SignedString\<close> returned; the token carries the given claims and its
  \<^verbatim>\<open>Raw\<close> field is the returned string, also when the error is not nil.
\<close>

theorem C10_encode_token:
  assumes "jwt_New lib (signer ja) = Some t0"
  shows "\<exists>t. Encode lib ja claims =
               Inr (Some t, SignedString lib (t0\<lparr>Claims := claims\<rparr>) (signKey ja))
             \<and> Raw t = fst (SignedString lib (t0\<lparr>Claims := claims\<rparr>) (signKey ja))
             \<and> Claims t = claims"
  using assms by (simp add: Encode_def Let_def split: prod.splits)

theorem C10_encode_token_witness:
  "jwt_New demo_lib (signer demo_ja) = Some demo_fresh_token
   \<and> (\<exists>t. Encode demo_lib demo_ja Map.empty = Inr (Some t, ''HS256.n.k'', None)
          \<and> Raw t = ''HS256.n.k'' \<and> Claims t = Map.empty)
   \<and> (\<exists>t. Encode demo_lib demo_ja [''exp'' \<mapsto> VString ''soon'']
            = Inr (Some t, [], Some (Err ''token cannot be signed''))
          \<and> Raw t = [] \<and> Claims t = [''exp'' \<mapsto> VString ''soon''])"
proof -
  have k: "signKey demo_ja = Some ''k''"
    by (simp add: demo_ja_def New_def)
  from C10_encode_token [OF demo_jwt_New, of Map.empty]
       C10_encode_token [OF demo_jwt_New, of "[''exp'' \<mapsto> VString ''soon'']"]
       demo_jwt_New
  show ?thesis
    by (simp add: k demo_SignedString_no_exp demo_SignedString_exp_string)
qed

end
